theory Spec2Isabelle
  imports Main "HOL-Library.Word"
begin

section \<open>SpectrumMarket: the ledger contract\<close>

text \<open>
  The Solidity contract \<open>SpectrumMarket\<close> keeps one \<open>Grant\<close> struct per device in the
  mapping \<open>activeGrants\<close> and a running total \<open>totalCollected\<close>. Solidity's integer types are
  machine words: \<open>address\<close> has 160 bits, \<open>bytes32\<close> and \<open>uint256\<close> 256, \<open>uint96\<close> 96 and
  \<open>uint32\<close> 32. Arithmetic on them is checked (the compiler is \<open>^0.8.20\<close>): an overflowing
  \<open>+\<close> reverts with a panic, while an explicit conversion such as \<open>uint32(...)\<close> truncates.
\<close>

type_synonym address = "160 word"
type_synonym bytes32 = "256 word"
type_synonym uint32 = "32 word"
type_synonym uint96 = "96 word"
type_synonym uint256 = "256 word"

record Grant =
  provider :: address
  paidAmount :: uint96
  frequency :: uint32
  expiresAt :: uint32

text \<open>A mapping slot that was never written, or that was deleted, reads as the all-zero struct.\<close>

definition zeroGrant :: Grant where
  "zeroGrant = \<lparr>provider = 0, paidAmount = 0, frequency = 0, expiresAt = 0\<rparr>"

record SpectrumMarket =
  owner :: address
  activeGrants :: "bytes32 \<Rightarrow> Grant"
  totalCollected :: uint256

text \<open>What a call sees of its transaction: \<open>msg.sender\<close> and \<open>block.timestamp\<close>.\<close>

record call_env =
  msg_sender :: address
  block_timestamp :: uint256

datatype event =
    AccessGranted bytes32 uint32 uint32 uint96 address uint256
  | AccessRevoked bytes32 address uint256

datatype error =
    InsufficientPayment
  | InvalidDuration
  | InvalidFrequency
  | NotProvider
  | GrantExpired
  | ArithmeticPanic

text \<open>The constructor stores the deployer as owner; every other slot starts at zero.\<close>

definition deploy :: "address \<Rightarrow> SpectrumMarket" where
  "deploy deployer =
     \<lparr>owner = deployer, activeGrants = (\<lambda>_. zeroGrant), totalCollected = 0\<rparr>"

text \<open>Checked \<open>uint256\<close> addition: \<open>None\<close> is the panic of Solidity 0.8 on overflow.\<close>

definition checked_add :: "uint256 \<Rightarrow> uint256 \<Rightarrow> uint256 option" where
  "checked_add a b = (if unat a + unat b < 2 ^ 256 then Some (a + b) else None)"

text \<open>\<open>0.001 ether\<close>, in wei.\<close>

definition min_payment :: uint256 where
  "min_payment = 1000000000000000"

text \<open>
  \<open>grantAccess\<close> is payable: \<open>msg_value\<close> is the attached \<open>msg.value\<close>. A revert is \<open>Inl\<close>;
  success returns the new contract state and the events emitted. The three guards are
  tested in the order of the source. In \<open>block.timestamp + duration\<close> the \<open>uint32\<close> duration is
  widened to \<open>uint256\<close> and the checked sum is then cut to \<open>uint32\<close>; \<open>uint96(msg.value)\<close> cuts
  the payment to 96 bits.
\<close>

definition grantAccess ::
  "call_env \<Rightarrow> uint256 \<Rightarrow> SpectrumMarket \<Rightarrow> bytes32 \<Rightarrow> uint32 \<Rightarrow> uint32
     \<Rightarrow> error + (SpectrumMarket \<times> event list)" where
  "grantAccess env msg_value s dev freq duration =
     (if msg_value < min_payment then Inl InsufficientPayment
      else if duration = 0 \<or> duration > 3600 then Inl InvalidDuration
      else if freq = 0 then Inl InvalidFrequency
      else
        let amount = (ucast msg_value :: uint96) in
        case checked_add (block_timestamp env) (ucast duration) of
          None \<Rightarrow> Inl ArithmeticPanic
        | Some until \<Rightarrow>
            let s1 = s\<lparr>activeGrants := (activeGrants s)(dev :=
                       \<lparr>provider = msg_sender env, paidAmount = amount,
                        frequency = freq, expiresAt = ucast until\<rparr>)\<rparr>
            in case checked_add (totalCollected s1) msg_value of
                 None \<Rightarrow> Inl ArithmeticPanic
               | Some collected \<Rightarrow>
                   Inr (s1\<lparr>totalCollected := collected\<rparr>,
                        [AccessGranted dev freq duration amount (msg_sender env)
                           (block_timestamp env)]))"

text \<open>
  \<open>revokeAccess\<close> is not payable, so it takes no value. The comparison
  \<open>grant.expiresAt <= block.timestamp\<close> widens the \<open>uint32\<close> field to \<open>uint256\<close>.
\<close>

definition revokeAccess ::
  "call_env \<Rightarrow> SpectrumMarket \<Rightarrow> bytes32 \<Rightarrow> error + (SpectrumMarket \<times> event list)" where
  "revokeAccess env s dev =
     (let grant = activeGrants s dev in
      if provider grant \<noteq> msg_sender env then Inl NotProvider
      else if (ucast (expiresAt grant) :: uint256) \<le> block_timestamp env then Inl GrantExpired
      else Inr (s\<lparr>activeGrants := (activeGrants s)(dev := zeroGrant)\<rparr>,
                [AccessRevoked dev (msg_sender env) (block_timestamp env)]))"

definition canTransmit :: "call_env \<Rightarrow> SpectrumMarket \<Rightarrow> bytes32 \<Rightarrow> bool" where
  "canTransmit env s dev =
     (let grant = activeGrants s dev in
      (ucast (expiresAt grant) :: uint256) > block_timestamp env)"

definition getGrant :: "SpectrumMarket \<Rightarrow> bytes32 \<Rightarrow> Grant" where
  "getGrant s dev = activeGrants s dev"

definition getGrantExpiration :: "SpectrumMarket \<Rightarrow> bytes32 \<Rightarrow> uint32" where
  "getGrantExpiration s dev = expiresAt (activeGrants s dev)"

text \<open>
  A transaction against the ledger. A reverted call leaves the contract state as it was and
  emits nothing; \<open>transact\<close> returns the state after the call, the events and the error, if any.
\<close>

datatype call =
    GrantAccess uint256 bytes32 uint32 uint32
  | RevokeAccess bytes32

fun invoke :: "call_env \<Rightarrow> call \<Rightarrow> SpectrumMarket \<Rightarrow> error + (SpectrumMarket \<times> event list)" where
  "invoke env (GrantAccess v dev freq duration) s = grantAccess env v s dev freq duration"
| "invoke env (RevokeAccess dev) s = revokeAccess env s dev"

definition transact ::
  "call_env \<Rightarrow> call \<Rightarrow> SpectrumMarket \<Rightarrow> SpectrumMarket \<times> event list \<times> error option" where
  "transact env c s =
     (case invoke env c s of
        Inl e \<Rightarrow> (s, [], Some e)
      | Inr (s', evs) \<Rightarrow> (s', evs, None))"

text \<open>A history of transactions, each in its own environment, applied in order.\<close>

fun transactAll :: "(call_env \<times> call) list \<Rightarrow> SpectrumMarket \<Rightarrow> SpectrumMarket" where
  "transactAll [] s = s"
| "transactAll ((env, c) # cs) s = transactAll cs (fst (transact env c s))"

text \<open>A Grant record exists for a device when its slot is not the all-zero struct.\<close>

definition grantExists :: "SpectrumMarket \<Rightarrow> bytes32 \<Rightarrow> bool" where
  "grantExists s dev = (activeGrants s dev \<noteq> zeroGrant)"


subsection \<open>The bodies, statement by statement\<close>

text \<open>
  To see what a call has done by the time it reverts, the two bodies are also written as
  the list of their statements, run on the machine a call works on: the contract storage
  and the log of events emitted so far. A statement either goes on (\<open>None\<close>) or stops
  the call with an error, and in both cases returns the machine as it has left it.
  \<open>runBody\<close> runs the statements in order and stops at the first error, returning the
  machine at that point, before the rollback that a revert then causes.
\<close>

type_synonym machine = "SpectrumMarket \<times> event list"
type_synonym stmt = "machine \<Rightarrow> error option \<times> machine"

fun runBody :: "stmt list \<Rightarrow> machine \<Rightarrow> error option \<times> machine" where
  "runBody [] m = (None, m)"
| "runBody (st # rest) m =
     (case st m of
        (Some e, m') \<Rightarrow> (Some e, m')
      | (None, m') \<Rightarrow> runBody rest m')"

text \<open>\<open>if (c) revert e;\<close>\<close>

definition revertIf :: "bool \<Rightarrow> error \<Rightarrow> stmt" where
  "revertIf c e = (\<lambda>m. (if c then Some e else None, m))"

text \<open>
  \<open>activeGrants[deviceId] = Grant({...})\<close> of \<open>grantAccess\<close>: the checked sum
  \<open>block.timestamp + duration\<close> is evaluated first, then the slot is written.
\<close>

definition storeGrant :: "call_env \<Rightarrow> uint256 \<Rightarrow> bytes32 \<Rightarrow> uint32 \<Rightarrow> uint32 \<Rightarrow> stmt" where
  "storeGrant env msg_value dev freq duration = (\<lambda>(s, logged).
     case checked_add (block_timestamp env) (ucast duration) of
       None \<Rightarrow> (Some ArithmeticPanic, (s, logged))
     | Some until \<Rightarrow>
         (None,
          (s\<lparr>activeGrants := (activeGrants s)(dev :=
               \<lparr>provider = msg_sender env, paidAmount = ucast msg_value,
                frequency = freq, expiresAt = ucast until\<rparr>)\<rparr>,
           logged)))"

text \<open>\<open>totalCollected += msg.value;\<close>\<close>

definition addCollected :: "uint256 \<Rightarrow> stmt" where
  "addCollected msg_value = (\<lambda>(s, logged).
     case checked_add (totalCollected s) msg_value of
       None \<Rightarrow> (Some ArithmeticPanic, (s, logged))
     | Some collected \<Rightarrow> (None, (s\<lparr>totalCollected := collected\<rparr>, logged)))"

text \<open>\<open>delete activeGrants[deviceId];\<close>\<close>

definition deleteGrant :: "bytes32 \<Rightarrow> stmt" where
  "deleteGrant dev = (\<lambda>(s, logged).
     (None, (s\<lparr>activeGrants := (activeGrants s)(dev := zeroGrant)\<rparr>, logged)))"

text \<open>\<open>emit ev;\<close>\<close>

definition emit :: "event \<Rightarrow> stmt" where
  "emit ev = (\<lambda>(s, logged). (None, (s, logged @ [ev])))"

definition grantAccess_body ::
  "call_env \<Rightarrow> uint256 \<Rightarrow> SpectrumMarket \<Rightarrow> bytes32 \<Rightarrow> uint32 \<Rightarrow> uint32
     \<Rightarrow> error option \<times> machine" where
  "grantAccess_body env msg_value s dev freq duration =
     runBody
       [revertIf (msg_value < min_payment) InsufficientPayment,
        revertIf (duration = 0 \<or> duration > 3600) InvalidDuration,
        revertIf (freq = 0) InvalidFrequency,
        storeGrant env msg_value dev freq duration,
        addCollected msg_value,
        emit (AccessGranted dev freq duration (ucast msg_value) (msg_sender env)
                (block_timestamp env))]
       (s, [])"

text \<open>
  \<open>revokeAccess\<close> first copies the slot to memory (\<open>Grant memory grant\<close>); both guards
  read that copy.
\<close>

definition revokeAccess_body ::
  "call_env \<Rightarrow> SpectrumMarket \<Rightarrow> bytes32 \<Rightarrow> error option \<times> machine" where
  "revokeAccess_body env s dev =
     (let grant = activeGrants s dev in
      runBody
        [revertIf (provider grant \<noteq> msg_sender env) NotProvider,
         revertIf ((ucast (expiresAt grant) :: uint256) \<le> block_timestamp env) GrantExpired,
         deleteGrant dev,
         emit (AccessRevoked dev (msg_sender env) (block_timestamp env))]
        (s, []))"


section \<open>SpectrumProvider: the decision engine\<close>

text \<open>
  The provider keeps \<open>deviceStates\<close>, a \<open>Map\<close> from device id to \<open>DeviceState\<close>. JavaScript
  numbers holding an \<open>int16\<close> signal-to-noise ratio and a millisecond clock are integers here.
\<close>

record DeviceState =
  hasGrant :: bool
  grantExpires :: int
  lastSNR :: int

text \<open>
  The fields \<open>handleSignalData\<close> decodes from a record: \<open>fields[1]\<close>, \<open>fields[3]\<close> and
  \<open>fields[7]\<close>. A record of unexpected format is \<open>None\<close>: the function logs it and returns
  (directly, or through its outer \<open>catch\<close>) before it touches \<open>deviceStates\<close>.
\<close>

record fields =
  deviceId :: string
  snr :: int
  bidPrice :: int

type_synonym rawData = "fields option"

datatype action = Grant | Revoke | NoAction

text \<open>
  How the task handed to the transaction queue ends: \<open>walletClient.writeContract\<close> resolves
  with a hash, or throws (the ledger rejected the call, or the network failed).
\<close>

datatype submission = Accepted | Failed

definition defaultState :: DeviceState where
  "defaultState = \<lparr>hasGrant = False, grantExpires = 0, lastSNR = 0\<rparr>"

text \<open>
  \<open>handleSignalData\<close> with \<open>MIN_SNR\<close> (read from the process environment), \<open>now\<close> (the
  value of \<open>Date.now()\<close>) and the end of the queued task as parameters. It awaits the queued
  task, so the task's \<open>catch\<close> has run when it returns. The grant task's \<open>catch\<close> stores
  \<open>currentState\<close> back; the revoke task's \<open>catch\<close> only logs. The result is the action
  chosen and the new \<open>deviceStates\<close>.
\<close>

definition handleSignalData ::
  "int \<Rightarrow> int \<Rightarrow> submission \<Rightarrow> rawData \<Rightarrow> (string \<rightharpoonup> DeviceState)
     \<Rightarrow> action \<times> (string \<rightharpoonup> DeviceState)" where
  "handleSignalData MIN_SNR now outcome raw deviceStates =
     (case raw of
        None \<Rightarrow> (NoAction, deviceStates)
      | Some f \<Rightarrow>
          let currentState = (case deviceStates (deviceId f) of
                                Some st \<Rightarrow> st | None \<Rightarrow> defaultState);
              shouldHaveGrant = (snr f \<ge> MIN_SNR);
              grantExpired = (grantExpires currentState < now)
          in
          if shouldHaveGrant \<and> (\<not> hasGrant currentState \<or> grantExpired) then
            let optimistic = deviceStates(deviceId f \<mapsto>
                  \<lparr>hasGrant = True, grantExpires = now + 10000, lastSNR = snr f\<rparr>)
            in (Grant,
                case outcome of
                  Accepted \<Rightarrow> optimistic
                | Failed \<Rightarrow> optimistic(deviceId f \<mapsto> currentState))
          else if \<not> shouldHaveGrant \<and> hasGrant currentState \<and> \<not> grantExpired then
            (Revoke,
             deviceStates(deviceId f \<mapsto>
               \<lparr>hasGrant = False, grantExpires = 0, lastSNR = snr f\<rparr>))
          else (NoAction, deviceStates))"

text \<open>
  The state a lookup yields, as \<open>this.deviceStates.get(deviceId) || {...}\<close> reads it.
\<close>

definition stateOf :: "(string \<rightharpoonup> DeviceState) \<Rightarrow> string \<Rightarrow> DeviceState" where
  "stateOf deviceStates d = (case deviceStates d of Some st \<Rightarrow> st | None \<Rightarrow> defaultState)"



section \<open>SpectrumProvider: the poller\<close>

text \<open>
  What a read of the telemetry log gives: a value, a falsy result (\<open>null\<close>), or a thrown
  error, which the \<open>catch\<close> around the whole tick logs.
\<close>

datatype 'a fetched = Data 'a | NoData | FetchError

text \<open>
  The poller's state: the cursor \<open>lastProcessedIndex\<close>, the state behind the handler, and (for
  the proofs) the indices handed to \<open>handleSignalData\<close> so far, in order.
\<close>

record 's poller =
  lastProcessedIndex :: int
  engine :: 's
  dispatched :: "int list"

definition startPoller :: "'s \<Rightarrow> 's poller" where
  "startPoller e = \<lparr>lastProcessedIndex = -1, engine = e, dispatched = []\<rparr>"

text \<open>
  The \<open>for\<close> loop of one tick, from index \<open>i\<close>. A throwing \<open>getAtIndex\<close> leaves the loop
  through the tick's \<open>catch\<close>; a falsy result skips the body and the loop goes on with
  \<open>i + 1\<close>; data is handled and the cursor set to \<open>i\<close>.
\<close>

function pollLoop ::
  "('r \<Rightarrow> 's \<Rightarrow> 's) \<Rightarrow> (int \<Rightarrow> 'r fetched) \<Rightarrow> int \<Rightarrow> int \<Rightarrow> 's poller \<Rightarrow> 's poller" where
  "pollLoop handle getAtIndex totalNum i p =
     (if i < totalNum then
        (case getAtIndex i of
           FetchError \<Rightarrow> p
         | NoData \<Rightarrow> pollLoop handle getAtIndex totalNum (i + 1) p
         | Data r \<Rightarrow>
             pollLoop handle getAtIndex totalNum (i + 1)
               (p\<lparr>lastProcessedIndex := i, engine := handle r (engine p),
                  dispatched := dispatched p @ [i]\<rparr>))
      else p)"
  by pat_completeness auto
termination
  by (relation "measure (\<lambda>(handle, getAtIndex, totalNum, i, p). nat (totalNum - i))") auto

declare pollLoop.simps [simp del]

text \<open>
  One timer tick run to its end: read the total, return when it is falsy or zero, else loop
  from \<open>lastProcessedIndex + 1\<close>.
\<close>

definition pollTick ::
  "('r \<Rightarrow> 's \<Rightarrow> 's) \<Rightarrow> nat fetched \<Rightarrow> (int \<Rightarrow> 'r fetched) \<Rightarrow> 's poller \<Rightarrow> 's poller" where
  "pollTick handle total' getAtIndex p =
     (case total' of
        FetchError \<Rightarrow> p
      | NoData \<Rightarrow> p
      | Data t \<Rightarrow>
          if t = 0 then p
          else pollLoop handle getAtIndex (int t) (lastProcessedIndex p + 1) p)"


section \<open>Properties of the ledger contract\<close>

subsection \<open>Widening, narrowing and checked addition\<close>

lemma unat_uint32_bound: "unat (x :: uint32) < 2 ^ 32"
proof -
  have "(unsigned x :: nat) < 2 ^ LENGTH(32)" by (rule unsigned_less)
  then show ?thesis by simp
qed

lemma unat_widen32: "unat (ucast (x :: uint32) :: uint256) = unat x"
proof -
  have "unat x < 2 ^ 32" by (rule unat_uint32_bound)
  also have "\<dots> < (2::nat) ^ 256" by simp
  finally show ?thesis by (simp add: unsigned_ucast_eq take_bit_nat_eq_self)
qed

lemma unat_narrow96: "unat v < 2 ^ 96 \<Longrightarrow> unat (ucast (v :: uint256) :: uint96) = unat v"
  by (simp add: unsigned_ucast_eq take_bit_nat_eq_self)

lemma unat_narrow32: "unat v < 2 ^ 32 \<Longrightarrow> unat (ucast (v :: uint256) :: uint32) = unat v"
  by (simp add: unsigned_ucast_eq take_bit_nat_eq_self)

lemma unat_narrow96_mod: "unat (ucast (v :: uint256) :: uint96) = unat v mod 2 ^ 96"
  by (simp add: unsigned_ucast_eq take_bit_eq_mod)

lemma unat_narrow32_mod: "unat (ucast (v :: uint256) :: uint32) = unat v mod 2 ^ 32"
  by (simp add: unsigned_ucast_eq take_bit_eq_mod)

lemma widen32_le: "((ucast (x :: uint32) :: uint256) \<le> t) = (unat x \<le> unat t)"
  by (simp add: word_le_nat_alt unat_widen32)

lemma widen32_less: "(t < (ucast (x :: uint32) :: uint256)) = (unat t < unat x)"
  by (simp add: word_less_nat_alt unat_widen32)

lemma grantAccess_Inr:
  assumes "grantAccess env v s dev freq dur = Inr (s', evs)"
  shows "activeGrants s' = (activeGrants s)(dev :=
           \<lparr>provider = msg_sender env, paidAmount = ucast v, frequency = freq,
            expiresAt = ucast (block_timestamp env + ucast dur)\<rparr>)"
    and "unat (totalCollected s') = unat (totalCollected s) + unat v"
    and "owner s' = owner s"
    and "evs = [AccessGranted dev freq dur (ucast v) (msg_sender env) (block_timestamp env)]"
    and "min_payment \<le> v" and "dur \<noteq> 0" and "dur \<le> 3600" and "freq \<noteq> 0"
    and "unat (block_timestamp env) + unat dur < 2 ^ 256"
  using assms
  by (auto simp: grantAccess_def Let_def checked_add_def unat_word_ariths take_bit_nat_eq_self unat_widen32
      split: if_splits option.splits)

lemma transactAll_append: "transactAll (xs @ ys) s = transactAll ys (transactAll xs s)"
  by (induction xs arbitrary: s) auto

lemma transactAll_reverted:
  "\<forall>(env, c) \<in> set cs. \<exists>e. invoke env c s = Inl e \<Longrightarrow> transactAll cs s = s"
  by (induction cs) (auto simp: transact_def)

lemma revokeAccess_Inr:
  assumes "revokeAccess env s dev = Inr (s', evs)"
  shows "s' = s\<lparr>activeGrants := (activeGrants s)(dev := zeroGrant)\<rparr>"
    and "evs = [AccessRevoked dev (msg_sender env) (block_timestamp env)]"
    and "provider (activeGrants s dev) = msg_sender env"
    and "unat (block_timestamp env) < unat (expiresAt (activeGrants s dev))"
  using assms
  by (auto simp: revokeAccess_def Let_def widen32_le not_le split: if_splits)

text \<open>
  The call the engine submits for a Grant, \<open>grantAccess(deviceId, 2400, 10)\<close> with
  0.001 ether, passes every guard of the ledger.
\<close>

lemma engine_grant_passes_guards:
  assumes "unat (block_timestamp env) + 10 < 2 ^ 256"
    and "unat (totalCollected s) + 1000000000000000 < 2 ^ 256"
  shows "\<exists>s' evs. grantAccess env 1000000000000000 s dev 2400 10 = Inr (s', evs)"
  using assms
  by (simp add: grantAccess_def min_payment_def checked_add_def Let_def)


subsection \<open>grantAccess overwrites the record\<close>

text \<open>
  Claim C4, as amended. Take any history \<open>before\<close> of ledger transactions, then a
  \<open>grantAccess(dev, freq, dur)\<close> by \<open>msg_sender env\<close> paying \<open>v\<close> that succeeds, then any
  further calls that all revert. Whatever the record held before, \<open>getGrant(dev)\<close> then
  returns exactly the record with provider the caller, paidAmount \<open>v\<close> cut to 96 bits, the
  frequency given and expiresAt \<open>now + dur\<close> cut to 32 bits: no field of an older record is
  left. paidAmount is \<open>v\<close> itself when \<open>v < 2^96\<close>, and expiresAt is \<open>now + dur\<close> itself
  when \<open>now + dur < 2^32\<close>. \<open>totalCollected\<close> has grown by exactly \<open>v\<close>.
\<close>

theorem grantAccess_latest_call_wins:
  assumes ok: "grantAccess env v (transactAll before s0) dev freq dur = Inr (s', evs)"
    and later: "\<forall>(env', c') \<in> set after. \<exists>e. invoke env' c' s' = Inl e"
  shows "getGrant (transactAll (before @ (env, GrantAccess v dev freq dur) # after) s0) dev
           = \<lparr>provider = msg_sender env, paidAmount = ucast v, frequency = freq,
              expiresAt = ucast (block_timestamp env + ucast dur)\<rparr>
       \<and> unat (paidAmount (getGrant (transactAll (before @ (env, GrantAccess v dev freq dur) # after) s0) dev))
           = unat v mod 2 ^ 96
       \<and> unat (expiresAt (getGrant (transactAll (before @ (env, GrantAccess v dev freq dur) # after) s0) dev))
           = (unat (block_timestamp env) + unat dur) mod 2 ^ 32
       \<and> (unat v < 2 ^ 96 \<longrightarrow>
            unat (paidAmount (getGrant (transactAll (before @ (env, GrantAccess v dev freq dur) # after) s0) dev))
              = unat v)
       \<and> (unat (block_timestamp env) + unat dur < 2 ^ 32 \<longrightarrow>
            unat (expiresAt (getGrant (transactAll (before @ (env, GrantAccess v dev freq dur) # after) s0) dev))
              = unat (block_timestamp env) + unat dur)
       \<and> unat (totalCollected (transactAll (before @ (env, GrantAccess v dev freq dur) # after) s0))
           = unat (totalCollected (transactAll before s0)) + unat v"
proof -
  let ?final = "transactAll (before @ (env, GrantAccess v dev freq dur) # after) s0"
  have "fst (transact env (GrantAccess v dev freq dur) (transactAll before s0)) = s'"
    using ok by (simp add: transact_def)
  then have "?final = transactAll after s'"
    by (simp add: transactAll_append)
  then have final: "?final = s'"
    using later by (simp add: transactAll_reverted)
  have sum256: "unat (block_timestamp env + ucast dur) = unat (block_timestamp env) + unat dur"
    using grantAccess_Inr(9) [OF ok]
    by (simp add: unat_word_ariths take_bit_nat_eq_self unat_widen32)
  have g: "getGrant s' dev = \<lparr>provider = msg_sender env, paidAmount = ucast v, frequency = freq,
            expiresAt = ucast (block_timestamp env + ucast dur)\<rparr>"
    using grantAccess_Inr(1) [OF ok] by (simp add: getGrant_def)
  have p: "unat (paidAmount (getGrant s' dev)) = unat v mod 2 ^ 96"
    by (simp add: g unat_narrow96_mod)
  have e: "unat (expiresAt (getGrant s' dev)) = (unat (block_timestamp env) + unat dur) mod 2 ^ 32"
    by (simp add: g unat_narrow32_mod sum256)
  show ?thesis
    using g p e grantAccess_Inr(2) [OF ok] by (simp add: final)
qed

text \<open>
  The theorem for C4 on a ledger where address 9 already holds a grant for the device
  (frequency 5000, until 1000): address 7 grants at 950 for 10 seconds, and a later call
  reverts. The record is the new one in every field.
\<close>

theorem grantAccess_latest_call_wins_witness:
  "getGrant (transactAll [(\<lparr>msg_sender = 9, block_timestamp = 900\<rparr>,
        GrantAccess 2000000000000000 170 5000 100)] (deploy 1)) 170
     = \<lparr>provider = 9, paidAmount = 2000000000000000, frequency = 5000, expiresAt = 1000\<rparr>
   \<and> getGrant (transactAll ([(\<lparr>msg_sender = 9, block_timestamp = 900\<rparr>,
        GrantAccess 2000000000000000 170 5000 100)]
        @ (\<lparr>msg_sender = 7, block_timestamp = 950\<rparr>, GrantAccess 1000000000000000 170 2400 10)
        # [(\<lparr>msg_sender = 9, block_timestamp = 951\<rparr>, GrantAccess 5 170 5000 0)]) (deploy 1)) 170
     = \<lparr>provider = 7, paidAmount = 1000000000000000, frequency = 2400, expiresAt = 960\<rparr>
   \<and> unat (totalCollected (transactAll ([(\<lparr>msg_sender = 9, block_timestamp = 900\<rparr>,
        GrantAccess 2000000000000000 170 5000 100)]
        @ (\<lparr>msg_sender = 7, block_timestamp = 950\<rparr>, GrantAccess 1000000000000000 170 2400 10)
        # [(\<lparr>msg_sender = 9, block_timestamp = 951\<rparr>, GrantAccess 5 170 5000 0)]) (deploy 1)))
     = 3000000000000000"
proof -
  let ?before = "[(\<lparr>msg_sender = 9, block_timestamp = 900\<rparr>,
        GrantAccess 2000000000000000 170 5000 100)]"
  let ?env = "\<lparr>msg_sender = 7, block_timestamp = 950\<rparr> :: call_env"
  let ?after = "[(\<lparr>msg_sender = 9, block_timestamp = 951\<rparr>, GrantAccess 5 170 5000 0)]"
  have old: "getGrant (transactAll ?before (deploy 1)) 170
     = \<lparr>provider = 9, paidAmount = 2000000000000000, frequency = 5000, expiresAt = 1000\<rparr>"
    by (simp add: transact_def grantAccess_def min_payment_def checked_add_def getGrant_def deploy_def)
  have collected: "unat (totalCollected (transactAll ?before (deploy 1))) = 2000000000000000"
    by (simp add: transact_def grantAccess_def min_payment_def checked_add_def deploy_def)
  then have "\<exists>s' evs. grantAccess ?env 1000000000000000 (transactAll ?before (deploy 1)) 170 2400 10
      = Inr (s', evs)"
    by (intro engine_grant_passes_guards) simp_all
  then obtain s' evs where
    ok: "grantAccess ?env 1000000000000000 (transactAll ?before (deploy 1)) 170 2400 10 = Inr (s', evs)"
    by blast
  have later: "\<forall>(env', c') \<in> set ?after. \<exists>e. invoke env' c' s' = Inl e"
    by (simp add: grantAccess_def min_payment_def)
  show ?thesis
    using grantAccess_latest_call_wins [OF ok later] old collected by simp
qed

text \<open>
  Claim C4 as stated fails where \<open>now + duration\<close> does not fit the \<open>uint32\<close> field: a
  successful grant of 10 seconds at time \<open>2^32 - 5\<close> stores expiresAt 5, not
  \<open>now + duration = 2^32 + 5\<close>.
\<close>

theorem grantAccess_expiry_truncated:
  "unat (expiresAt (getGrant (fst (transact \<lparr>msg_sender = 7, block_timestamp = 4294967291\<rparr>
       (GrantAccess 1000000000000000 170 2400 10) (deploy 1))) 170)) = 5
   \<and> unat (block_timestamp \<lparr>msg_sender = 7, block_timestamp = 4294967291\<rparr>) + unat (10 :: uint32) = 4294967301
   \<and> unat (expiresAt (getGrant (fst (transact \<lparr>msg_sender = 7, block_timestamp = 4294967291\<rparr>
       (GrantAccess 1000000000000000 170 2400 10) (deploy 1))) 170))
     \<noteq> unat (block_timestamp \<lparr>msg_sender = 7, block_timestamp = 4294967291\<rparr>) + unat (10 :: uint32)
   \<and> snd (snd (transact \<lparr>msg_sender = 7, block_timestamp = 4294967291\<rparr>
       (GrantAccess 1000000000000000 170 2400 10) (deploy 1))) = None"
  by (simp add: transact_def grantAccess_def min_payment_def checked_add_def getGrant_def deploy_def)


subsection \<open>canTransmit\<close>

text \<open>
  A successful \<open>grantAccess\<close> leaves a record that exists (its frequency is not 0); a
  successful \<open>revokeAccess\<close> leaves none.
\<close>

lemma grantAccess_creates_record:
  assumes "grantAccess env v s dev freq dur = Inr (s', evs)"
  shows "grantExists s' dev"
proof -
  have "frequency (activeGrants s' dev) = freq"
    using grantAccess_Inr(1) [OF assms] by simp
  moreover have "freq \<noteq> 0" by (rule grantAccess_Inr(8) [OF assms])
  ultimately show ?thesis by (auto simp: grantExists_def zeroGrant_def)
qed

lemma revokeAccess_removes_record:
  assumes "revokeAccess env s dev = Inr (s', evs)"
  shows "\<not> grantExists s' dev"
  using revokeAccess_Inr(1) [OF assms] by (simp add: grantExists_def)

text \<open>
  Claim C5. \<open>canTransmit(dev)\<close> is true exactly when a Grant record exists for the device
  and its expiresAt is strictly greater than the current time. It is false for a device
  without a record, in particular on a freshly deployed ledger, and false once expiresAt is
  at or before the current time.
\<close>

theorem canTransmit_iff_active_grant:
  "(canTransmit env s dev \<longleftrightarrow>
      grantExists s dev \<and> unat (block_timestamp env) < unat (expiresAt (getGrant s dev)))
   \<and> (\<not> grantExists s dev \<longrightarrow> \<not> canTransmit env s dev)
   \<and> \<not> canTransmit env (deploy deployer) dev
   \<and> (unat (expiresAt (getGrant s dev)) \<le> unat (block_timestamp env) \<longrightarrow> \<not> canTransmit env s dev)"
  by (auto simp: canTransmit_def grantExists_def getGrant_def widen32_less zeroGrant_def deploy_def)

text \<open>
  The cases of the theorem for C5 on a ledger holding one grant that expires at 1010: active
  at 1005, expired at 1010, and no record for another device.
\<close>

theorem canTransmit_iff_active_grant_witness:
  "canTransmit \<lparr>msg_sender = 9, block_timestamp = 1005\<rparr>
     (fst (transact \<lparr>msg_sender = 7, block_timestamp = 1000\<rparr>
        (GrantAccess 1000000000000000 170 2400 10) (deploy 1))) 170
   \<and> \<not> canTransmit \<lparr>msg_sender = 9, block_timestamp = 1010\<rparr>
     (fst (transact \<lparr>msg_sender = 7, block_timestamp = 1000\<rparr>
        (GrantAccess 1000000000000000 170 2400 10) (deploy 1))) 170
   \<and> \<not> grantExists (fst (transact \<lparr>msg_sender = 7, block_timestamp = 1000\<rparr>
        (GrantAccess 1000000000000000 170 2400 10) (deploy 1))) 187
   \<and> \<not> canTransmit \<lparr>msg_sender = 9, block_timestamp = 1005\<rparr>
     (fst (transact \<lparr>msg_sender = 7, block_timestamp = 1000\<rparr>
        (GrantAccess 1000000000000000 170 2400 10) (deploy 1))) 187"
proof -
  let ?s = "fst (transact \<lparr>msg_sender = 7, block_timestamp = 1000\<rparr>
        (GrantAccess 1000000000000000 170 2400 10) (deploy 1))"
  have g: "getGrant ?s 170 = \<lparr>provider = 7, paidAmount = 1000000000000000, frequency = 2400, expiresAt = 1010\<rparr>"
    by (simp add: transact_def grantAccess_def min_payment_def checked_add_def getGrant_def deploy_def)
  have x: "grantExists ?s 170"
    by (simp add: transact_def grantAccess_def min_payment_def checked_add_def grantExists_def deploy_def zeroGrant_def)
  have nx: "\<not> grantExists ?s 187"
    by (simp add: transact_def grantAccess_def min_payment_def checked_add_def grantExists_def deploy_def)
  show ?thesis
    using canTransmit_iff_active_grant [of "\<lparr>msg_sender = 9, block_timestamp = 1005\<rparr>" ?s 170 1]
      canTransmit_iff_active_grant [of "\<lparr>msg_sender = 9, block_timestamp = 1010\<rparr>" ?s 170 1]
      canTransmit_iff_active_grant [of "\<lparr>msg_sender = 9, block_timestamp = 1005\<rparr>" ?s 187 1]
      g x nx
    by simp
qed


subsection \<open>The guards of grantAccess\<close>

text \<open>
  Claim C6, as amended. The guards of \<open>grantAccess\<close> apply in order: a payment below
  0.001 ether fails with InsufficientPayment; with a sufficient payment, a duration of 0 or
  above 3600 fails with InvalidDuration; with a sufficient payment and a duration in
  1..3600, a frequency of 0 fails with InvalidFrequency. A call with a bad duration or a
  zero frequency fails in every case. With a sufficient payment and a nonzero frequency a
  duration of 3600 succeeds, as long as the two checked \<open>uint256\<close> additions do not
  overflow.
\<close>

theorem grantAccess_guards_in_order:
  "(v < min_payment \<longrightarrow> grantAccess env v s dev freq dur = Inl InsufficientPayment)
   \<and> (min_payment \<le> v \<and> (dur = 0 \<or> 3600 < dur) \<longrightarrow>
        grantAccess env v s dev freq dur = Inl InvalidDuration)
   \<and> (min_payment \<le> v \<and> dur \<noteq> 0 \<and> dur \<le> 3600 \<and> freq = 0 \<longrightarrow>
        grantAccess env v s dev freq dur = Inl InvalidFrequency)
   \<and> (dur = 0 \<or> 3600 < dur \<or> freq = 0 \<longrightarrow> (\<exists>e. grantAccess env v s dev freq dur = Inl e))
   \<and> (min_payment \<le> v \<and> freq \<noteq> 0
        \<and> unat (block_timestamp env) + 3600 < 2 ^ 256
        \<and> unat (totalCollected s) + unat v < 2 ^ 256 \<longrightarrow>
        (\<exists>s' evs. grantAccess env v s dev freq 3600 = Inr (s', evs)))"
  by (auto simp: grantAccess_def Let_def checked_add_def unat_widen32 not_less
      split: option.splits)

text \<open>
  The cases of the theorem for C6 at frequency 2400 on a fresh ledger: a payment one wei
  short, durations 0, 3601 and 3600, and frequency 0.
\<close>

theorem grantAccess_guards_in_order_witness:
  "grantAccess \<lparr>msg_sender = 7, block_timestamp = 1000\<rparr> 999999999999999 (deploy 1) 170 2400 10
     = Inl InsufficientPayment
   \<and> grantAccess \<lparr>msg_sender = 7, block_timestamp = 1000\<rparr> 1000000000000000 (deploy 1) 170 2400 0
     = Inl InvalidDuration
   \<and> grantAccess \<lparr>msg_sender = 7, block_timestamp = 1000\<rparr> 1000000000000000 (deploy 1) 170 2400 3601
     = Inl InvalidDuration
   \<and> grantAccess \<lparr>msg_sender = 7, block_timestamp = 1000\<rparr> 1000000000000000 (deploy 1) 170 0 10
     = Inl InvalidFrequency
   \<and> (\<exists>s' evs. grantAccess \<lparr>msg_sender = 7, block_timestamp = 1000\<rparr> 1000000000000000 (deploy 1) 170 2400 3600
     = Inr (s', evs))"
  using grantAccess_guards_in_order [of 999999999999999 "\<lparr>msg_sender = 7, block_timestamp = 1000\<rparr>" "deploy 1" 170 2400 10]
    grantAccess_guards_in_order [of 1000000000000000 "\<lparr>msg_sender = 7, block_timestamp = 1000\<rparr>" "deploy 1" 170 2400 0]
    grantAccess_guards_in_order [of 1000000000000000 "\<lparr>msg_sender = 7, block_timestamp = 1000\<rparr>" "deploy 1" 170 2400 3601]
    grantAccess_guards_in_order [of 1000000000000000 "\<lparr>msg_sender = 7, block_timestamp = 1000\<rparr>" "deploy 1" 170 0 10]
    grantAccess_guards_in_order [of 1000000000000000 "\<lparr>msg_sender = 7, block_timestamp = 1000\<rparr>" "deploy 1" 170 2400 10]
  by (simp add: min_payment_def deploy_def)

text \<open>
  Claim C6 as stated fails where an earlier guard fires first: with no payment a duration of
  0 fails with InsufficientPayment, not InvalidDuration, and with a duration of 0 a frequency
  of 0 fails with InvalidDuration, not InvalidFrequency.
\<close>

theorem grantAccess_low_payment_masks_duration:
  "grantAccess \<lparr>msg_sender = 7, block_timestamp = 1000\<rparr> 0 (deploy 1) 170 2400 0
     = Inl InsufficientPayment
   \<and> grantAccess \<lparr>msg_sender = 7, block_timestamp = 1000\<rparr> 0 (deploy 1) 170 2400 0
     \<noteq> Inl InvalidDuration
   \<and> grantAccess \<lparr>msg_sender = 7, block_timestamp = 1000\<rparr> 1000000000000000 (deploy 1) 170 0 0
     = Inl InvalidDuration
   \<and> grantAccess \<lparr>msg_sender = 7, block_timestamp = 1000\<rparr> 1000000000000000 (deploy 1) 170 0 0
     \<noteq> Inl InvalidFrequency"
  by (simp add: grantAccess_def min_payment_def)


subsection \<open>revokeAccess\<close>

text \<open>
  Claim C7, as amended. \<open>revokeAccess(dev)\<close> fails with NotProvider when the caller is not
  the provider of the stored Grant. It fails with GrantExpired when the caller is the
  provider and the current time is at or after expiresAt. At or after expiresAt it fails for
  every caller, with one of these two errors. When the caller is the provider and the grant
  is still active it succeeds, deletes the Grant and emits AccessRevoked.
\<close>

theorem revokeAccess_guards_in_order:
  "(provider (getGrant s dev) \<noteq> msg_sender env \<longrightarrow> revokeAccess env s dev = Inl NotProvider)
   \<and> (provider (getGrant s dev) = msg_sender env
        \<and> unat (expiresAt (getGrant s dev)) \<le> unat (block_timestamp env) \<longrightarrow>
        revokeAccess env s dev = Inl GrantExpired)
   \<and> (unat (expiresAt (getGrant s dev)) \<le> unat (block_timestamp env) \<longrightarrow>
        revokeAccess env s dev = Inl NotProvider \<or> revokeAccess env s dev = Inl GrantExpired)
   \<and> (provider (getGrant s dev) = msg_sender env
        \<and> unat (block_timestamp env) < unat (expiresAt (getGrant s dev)) \<longrightarrow>
        revokeAccess env s dev =
          Inr (s\<lparr>activeGrants := (activeGrants s)(dev := zeroGrant)\<rparr>,
               [AccessRevoked dev (msg_sender env) (block_timestamp env)])
        \<and> getGrant (fst (transact env (RevokeAccess dev) s)) dev = zeroGrant)"
  by (auto simp: revokeAccess_def Let_def getGrant_def widen32_le transact_def)

text \<open>
  The cases of the theorem for C7 on a grant by address 7 that expires at 1010: another
  caller, the provider at 1010, and the provider at 1009.
\<close>

theorem revokeAccess_guards_in_order_witness:
  "revokeAccess \<lparr>msg_sender = 9, block_timestamp = 1005\<rparr>
     (fst (transact \<lparr>msg_sender = 7, block_timestamp = 1000\<rparr>
        (GrantAccess 1000000000000000 170 2400 10) (deploy 1))) 170 = Inl NotProvider
   \<and> revokeAccess \<lparr>msg_sender = 7, block_timestamp = 1010\<rparr>
     (fst (transact \<lparr>msg_sender = 7, block_timestamp = 1000\<rparr>
        (GrantAccess 1000000000000000 170 2400 10) (deploy 1))) 170 = Inl GrantExpired
   \<and> getGrant (fst (transact \<lparr>msg_sender = 7, block_timestamp = 1009\<rparr> (RevokeAccess 170)
       (fst (transact \<lparr>msg_sender = 7, block_timestamp = 1000\<rparr>
        (GrantAccess 1000000000000000 170 2400 10) (deploy 1))))) 170 = zeroGrant"
proof -
  let ?s = "fst (transact \<lparr>msg_sender = 7, block_timestamp = 1000\<rparr>
        (GrantAccess 1000000000000000 170 2400 10) (deploy 1))"
  have g: "getGrant ?s 170 = \<lparr>provider = 7, paidAmount = 1000000000000000, frequency = 2400, expiresAt = 1010\<rparr>"
    by (simp add: transact_def grantAccess_def min_payment_def checked_add_def getGrant_def deploy_def)
  show ?thesis
    using revokeAccess_guards_in_order [of ?s 170 "\<lparr>msg_sender = 9, block_timestamp = 1005\<rparr>"]
      revokeAccess_guards_in_order [of ?s 170 "\<lparr>msg_sender = 7, block_timestamp = 1010\<rparr>"]
      revokeAccess_guards_in_order [of ?s 170 "\<lparr>msg_sender = 7, block_timestamp = 1009\<rparr>"]
    by (simp add: g)
qed

text \<open>
  Claim C7 as stated fails for an expired grant and a caller other than its provider: the
  call fails with NotProvider, not GrantExpired.
\<close>

theorem revokeAccess_expired_other_caller:
  "unat (expiresAt (getGrant (fst (transact \<lparr>msg_sender = 7, block_timestamp = 1000\<rparr>
        (GrantAccess 1000000000000000 170 2400 10) (deploy 1))) 170)) = 1010
   \<and> revokeAccess \<lparr>msg_sender = 9, block_timestamp = 2000\<rparr>
     (fst (transact \<lparr>msg_sender = 7, block_timestamp = 1000\<rparr>
        (GrantAccess 1000000000000000 170 2400 10) (deploy 1))) 170 = Inl NotProvider
   \<and> revokeAccess \<lparr>msg_sender = 9, block_timestamp = 2000\<rparr>
     (fst (transact \<lparr>msg_sender = 7, block_timestamp = 1000\<rparr>
        (GrantAccess 1000000000000000 170 2400 10) (deploy 1))) 170 \<noteq> Inl GrantExpired"
  by (simp add: transact_def grantAccess_def min_payment_def checked_add_def getGrant_def
      deploy_def revokeAccess_def)

text \<open>
  Claim C8. For a device with an active grant, \<open>revokeAccess\<close> by its provider succeeds and
  leaves the all-zero record; a second \<open>revokeAccess\<close> by the same address, at any time,
  fails, and it fails with NotProvider unless that address is the zero address.
\<close>

theorem revokeAccess_second_call_fails:
  assumes active: "canTransmit env s dev"
    and prov: "provider (getGrant s dev) = msg_sender env"
    and same: "msg_sender env2 = msg_sender env"
  shows "\<exists>s' evs. revokeAccess env s dev = Inr (s', evs)
           \<and> getGrant s' dev = zeroGrant
           \<and> (\<exists>e. revokeAccess env2 s' dev = Inl e)
           \<and> (msg_sender env \<noteq> 0 \<longrightarrow> revokeAccess env2 s' dev = Inl NotProvider)"
  using assms
  by (auto simp: revokeAccess_def Let_def getGrant_def canTransmit_def zeroGrant_def not_le)

text \<open>
  The theorem for C8 on a grant by address 7: revoked at 1005, revoked again at 1006.
\<close>

theorem revokeAccess_second_call_fails_witness:
  "\<exists>s' evs. revokeAccess \<lparr>msg_sender = 7, block_timestamp = 1005\<rparr>
       (fst (transact \<lparr>msg_sender = 7, block_timestamp = 1000\<rparr>
          (GrantAccess 1000000000000000 170 2400 10) (deploy 1))) 170 = Inr (s', evs)
     \<and> getGrant s' 170 = zeroGrant
     \<and> revokeAccess \<lparr>msg_sender = 7, block_timestamp = 1006\<rparr> s' 170 = Inl NotProvider"
proof -
  let ?s = "fst (transact \<lparr>msg_sender = 7, block_timestamp = 1000\<rparr>
        (GrantAccess 1000000000000000 170 2400 10) (deploy 1))"
  let ?env = "\<lparr>msg_sender = 7, block_timestamp = 1005\<rparr> :: call_env"
  let ?env2 = "\<lparr>msg_sender = 7, block_timestamp = 1006\<rparr> :: call_env"
  have g: "getGrant ?s 170 = \<lparr>provider = 7, paidAmount = 1000000000000000, frequency = 2400, expiresAt = 1010\<rparr>"
    by (simp add: transact_def grantAccess_def min_payment_def checked_add_def getGrant_def deploy_def)
  have active: "canTransmit ?env ?s 170"
    using g by (simp add: canTransmit_def getGrant_def)
  have prov: "provider (getGrant ?s 170) = msg_sender ?env"
    by (simp add: g)
  have same: "msg_sender ?env2 = msg_sender ?env" by simp
  from revokeAccess_second_call_fails [OF active prov same]
  show ?thesis by auto
qed


subsection \<open>Reverted calls\<close>

text \<open>
  The results \<open>grantAccess\<close> and \<open>revokeAccess\<close> are what running the statements of their
  bodies gives.
\<close>

lemma grantAccess_runs_body:
  "grantAccess env v s dev freq dur =
     (case grantAccess_body env v s dev freq dur of
        (Some e, m) \<Rightarrow> Inl e
      | (None, m) \<Rightarrow> Inr m)"
  by (simp add: grantAccess_def grantAccess_body_def revertIf_def storeGrant_def
      addCollected_def emit_def Let_def split: option.split)

lemma revokeAccess_runs_body:
  "revokeAccess env s dev =
     (case revokeAccess_body env s dev of
        (Some e, m) \<Rightarrow> Inl e
      | (None, m) \<Rightarrow> Inr m)"
  by (simp add: revokeAccess_def revokeAccess_body_def revertIf_def deleteGrant_def
      emit_def Let_def)

text \<open>
  Not every revert finds the storage untouched: when \<open>totalCollected += msg.value\<close>
  overflows, the slot of the device has been written already, and only the rollback of the
  revert undoes it.
\<close>

lemma grantAccess_panic_after_write:
  "grantAccess_body \<lparr>msg_sender = 7, block_timestamp = 1000\<rparr> 1000000000000000
      ((deploy 1)\<lparr>totalCollected := 115792089237316195423570985008687907853269984665640564039457584007913129639935\<rparr>) 170 2400 10
   = (Some ArithmeticPanic,
      ((deploy 1)\<lparr>totalCollected := 115792089237316195423570985008687907853269984665640564039457584007913129639935, activeGrants := (activeGrants (deploy 1))(170 :=
          \<lparr>provider = 7, paidAmount = 1000000000000000, frequency = 2400, expiresAt = 1010\<rparr>)\<rparr>,
       []))"
  by (simp add: grantAccess_body_def revertIf_def storeGrant_def addCollected_def
      min_payment_def checked_add_def deploy_def)

text \<open>
  Claim C10. When \<open>grantAccess\<close> reverts with InsufficientPayment, InvalidDuration or
  InvalidFrequency, and when \<open>revokeAccess\<close> reverts (which it does with NotProvider or
  GrantExpired only), the body has stopped before any write to storage and before any
  \<open>emit\<close>: the machine at the point of the revert is the ledger as it was before the call,
  with an empty log. So the ledger after the transaction, the Grant of every device and
  \<open>totalCollected\<close>, is the ledger before it, and no event is emitted.
\<close>

theorem reverted_call_changes_nothing:
  "(grantAccess env v s dev freq dur = Inl e
      \<and> e \<in> {InsufficientPayment, InvalidDuration, InvalidFrequency} \<longrightarrow>
      grantAccess_body env v s dev freq dur = (Some e, (s, []))
      \<and> transact env (GrantAccess v dev freq dur) s = (s, [], Some e))
   \<and> (revokeAccess env s dev = Inl e \<longrightarrow>
      e \<in> {NotProvider, GrantExpired}
      \<and> revokeAccess_body env s dev = (Some e, (s, []))
      \<and> transact env (RevokeAccess dev) s = (s, [], Some e))"
  by (auto simp: transact_def grantAccess_def grantAccess_body_def revokeAccess_def
      revokeAccess_body_def revertIf_def storeGrant_def addCollected_def deleteGrant_def
      emit_def Let_def split: option.splits if_splits)

text \<open>
  The theorem for C10 on a ledger holding one grant by address 7 until 1010: the three
  reverts of \<open>grantAccess\<close>, and \<open>revokeAccess\<close> by another address and by the provider
  at 1010.
\<close>

theorem reverted_call_changes_nothing_witness:
  "grantAccess_body \<lparr>msg_sender = 9, block_timestamp = 1005\<rparr> 999999999999999
      (fst (transact \<lparr>msg_sender = 7, block_timestamp = 1000\<rparr>
         (GrantAccess 1000000000000000 170 2400 10) (deploy 1))) 170 2400 10
     = (Some InsufficientPayment,
        (fst (transact \<lparr>msg_sender = 7, block_timestamp = 1000\<rparr>
           (GrantAccess 1000000000000000 170 2400 10) (deploy 1)), []))
   \<and> grantAccess_body \<lparr>msg_sender = 9, block_timestamp = 1005\<rparr> 1000000000000000
      (fst (transact \<lparr>msg_sender = 7, block_timestamp = 1000\<rparr>
         (GrantAccess 1000000000000000 170 2400 10) (deploy 1))) 170 2400 3601
     = (Some InvalidDuration,
        (fst (transact \<lparr>msg_sender = 7, block_timestamp = 1000\<rparr>
           (GrantAccess 1000000000000000 170 2400 10) (deploy 1)), []))
   \<and> grantAccess_body \<lparr>msg_sender = 9, block_timestamp = 1005\<rparr> 1000000000000000
      (fst (transact \<lparr>msg_sender = 7, block_timestamp = 1000\<rparr>
         (GrantAccess 1000000000000000 170 2400 10) (deploy 1))) 170 0 10
     = (Some InvalidFrequency,
        (fst (transact \<lparr>msg_sender = 7, block_timestamp = 1000\<rparr>
           (GrantAccess 1000000000000000 170 2400 10) (deploy 1)), []))
   \<and> transact \<lparr>msg_sender = 9, block_timestamp = 1005\<rparr> (RevokeAccess 170)
      (fst (transact \<lparr>msg_sender = 7, block_timestamp = 1000\<rparr>
         (GrantAccess 1000000000000000 170 2400 10) (deploy 1)))
     = (fst (transact \<lparr>msg_sender = 7, block_timestamp = 1000\<rparr>
         (GrantAccess 1000000000000000 170 2400 10) (deploy 1)), [], Some NotProvider)
   \<and> transact \<lparr>msg_sender = 7, block_timestamp = 1010\<rparr> (RevokeAccess 170)
      (fst (transact \<lparr>msg_sender = 7, block_timestamp = 1000\<rparr>
         (GrantAccess 1000000000000000 170 2400 10) (deploy 1)))
     = (fst (transact \<lparr>msg_sender = 7, block_timestamp = 1000\<rparr>
         (GrantAccess 1000000000000000 170 2400 10) (deploy 1)), [], Some GrantExpired)"
proof -
  let ?s = "fst (transact \<lparr>msg_sender = 7, block_timestamp = 1000\<rparr>
        (GrantAccess 1000000000000000 170 2400 10) (deploy 1))"
  let ?other = "\<lparr>msg_sender = 9, block_timestamp = 1005\<rparr> :: call_env"
  let ?late = "\<lparr>msg_sender = 7, block_timestamp = 1010\<rparr> :: call_env"
  have g1: "grantAccess ?other 999999999999999 ?s 170 2400 10 = Inl InsufficientPayment"
    by (simp add: grantAccess_def min_payment_def)
  have g2: "grantAccess ?other 1000000000000000 ?s 170 2400 3601 = Inl InvalidDuration"
    by (simp add: grantAccess_def min_payment_def)
  have g3: "grantAccess ?other 1000000000000000 ?s 170 0 10 = Inl InvalidFrequency"
    by (simp add: grantAccess_def min_payment_def)
  have r1: "revokeAccess ?other ?s 170 = Inl NotProvider"
    by (simp add: transact_def grantAccess_def min_payment_def checked_add_def deploy_def
        revokeAccess_def)
  have r2: "revokeAccess ?late ?s 170 = Inl GrantExpired"
    by (simp add: transact_def grantAccess_def min_payment_def checked_add_def deploy_def
        revokeAccess_def)
  show ?thesis
    using reverted_call_changes_nothing [of ?other 999999999999999 ?s 170 2400 10 InsufficientPayment]
      reverted_call_changes_nothing [of ?other 1000000000000000 ?s 170 2400 3601 InvalidDuration]
      reverted_call_changes_nothing [of ?other 1000000000000000 ?s 170 0 10 InvalidFrequency]
      reverted_call_changes_nothing [of ?other _ ?s 170 _ _ NotProvider]
      reverted_call_changes_nothing [of ?late _ ?s 170 _ _ GrantExpired]
      g1 g2 g3 r1 r2
    by simp
qed


section \<open>Properties of the decision engine\<close>




text \<open>
  A failed grant submission puts back the state read at the start of
  \<open>handleSignalData\<close>, for every device.
\<close>

lemma failed_grant_rolls_back:
  assumes "handleSignalData T now Failed raw deviceStates = (Grant, deviceStates')"
  shows "stateOf deviceStates' d = stateOf deviceStates d"
  using assms
  by (auto simp: handleSignalData_def stateOf_def Let_def split: option.splits if_splits)

text \<open>
  Claim C2 fails for Revoke. A device holds a grant until 20000; at 15000 a sample with SNR 8
  makes the engine choose Revoke, and the submission fails. The state stays at the
  optimistic \<open>hasGrant = false\<close> instead of returning to the granted state, so the next low
  sample yields NoAction and the revoke is not tried again.
\<close>

theorem failed_revoke_not_rolled_back:
  "handleSignalData 10 15000 Failed (Some \<lparr>deviceId = ''0xaa'', snr = 8, bidPrice = 0\<rparr>)
     [''0xaa'' \<mapsto> \<lparr>hasGrant = True, grantExpires = 20000, lastSNR = 12\<rparr>]
   = (Revoke, [''0xaa'' \<mapsto> \<lparr>hasGrant = False, grantExpires = 0, lastSNR = 8\<rparr>])
   \<and> handleSignalData 10 15500 Accepted (Some \<lparr>deviceId = ''0xaa'', snr = 8, bidPrice = 0\<rparr>)
     [''0xaa'' \<mapsto> \<lparr>hasGrant = False, grantExpires = 0, lastSNR = 8\<rparr>]
   = (NoAction, [''0xaa'' \<mapsto> \<lparr>hasGrant = False, grantExpires = 0, lastSNR = 8\<rparr>])"
  by (simp add: handleSignalData_def Let_def)

text \<open>
  Read through \<open>stateOf\<close>, the device of C2 is left without a grant after the failed
  revoke, although the revoke never took effect.
\<close>

theorem failed_revoke_not_rolled_back_witness:
  "stateOf (snd (handleSignalData 10 15000 Failed
       (Some \<lparr>deviceId = ''0xaa'', snr = 8, bidPrice = 0\<rparr>)
       [''0xaa'' \<mapsto> \<lparr>hasGrant = True, grantExpires = 20000, lastSNR = 12\<rparr>])) ''0xaa''
   = \<lparr>hasGrant = False, grantExpires = 0, lastSNR = 8\<rparr>"
  using failed_revoke_not_rolled_back by (simp add: stateOf_def)


section \<open>Properties of the poller\<close>

text \<open>Within one tick the cursor never moves back.\<close>

lemma pollLoop_cursor_mono:
  "lastProcessedIndex p < i \<Longrightarrow>
     lastProcessedIndex p \<le> lastProcessedIndex (pollLoop h g n i p)"
proof (induction h g n i p rule: pollLoop.induct)
  case (1 h g n i p)
  show ?case
  proof (cases "i < n")
    case False
    then show ?thesis by (simp add: pollLoop.simps [of h g n i p])
  next
    case True
    show ?thesis
    proof (cases "g i")
      case (Data r)
      have "i \<le> lastProcessedIndex (pollLoop h g n (i + 1)
              (p\<lparr>lastProcessedIndex := i, engine := h r (engine p),
                 dispatched := dispatched p @ [i]\<rparr>))"
        using "1.IH"(1) [OF True Data] by simp
      with "1.prems" True Data show ?thesis
        by (simp add: pollLoop.simps [of h g n i p])
    next
      case NoData
      with "1.IH"(2) [OF True NoData] "1.prems" True show ?thesis
        by (simp add: pollLoop.simps [of h g n i p])
    next
      case FetchError
      with True show ?thesis by (simp add: pollLoop.simps [of h g n i p])
    qed
  qed
qed

text \<open>
  A fetch that throws at index \<open>k\<close> ends the tick with the cursor below \<open>k\<close>, so the
  next tick asks for \<open>k\<close> again.
\<close>

lemma pollLoop_stops_at_error:
  "g k = FetchError \<Longrightarrow> i \<le> k \<Longrightarrow> lastProcessedIndex p < k \<Longrightarrow>
     lastProcessedIndex (pollLoop h g n i p) < k"
proof (induction h g n i p rule: pollLoop.induct)
  case (1 h g n i p)
  show ?case
  proof (cases "i < n")
    case False
    with "1.prems" show ?thesis by (simp add: pollLoop.simps [of h g n i p])
  next
    case True
    show ?thesis
    proof (cases "g i")
      case (Data r)
      with "1.prems" have "i \<noteq> k" by auto
      with "1.prems" have "i + 1 \<le> k" and "i < k" by auto
      with "1.IH"(1) [OF True Data] "1.prems" True Data show ?thesis
        by (simp add: pollLoop.simps [of h g n i p])
    next
      case NoData
      with "1.prems" have "i \<noteq> k" by auto
      with "1.prems" have "i + 1 \<le> k" by auto
      with "1.IH"(2) [OF True NoData] "1.prems" True NoData show ?thesis
        by (simp add: pollLoop.simps [of h g n i p])
    next
      case FetchError
      with "1.prems" True show ?thesis by (simp add: pollLoop.simps [of h g n i p])
    qed
  qed
qed

text \<open>
  When every fetch from \<open>i\<close> up to the total returns data, the loop dispatches exactly
  the indices \<open>i, ..., totalNum - 1\<close>, in ascending order.
\<close>

lemma pollLoop_all_fetched:
  "\<forall>k. i \<le> k \<and> k < n \<longrightarrow> (\<exists>r. g k = Data r) \<Longrightarrow>
     dispatched (pollLoop h g n i p) = dispatched p @ [i..n - 1]"
proof (induction h g n i p rule: pollLoop.induct)
  case (1 h g n i p)
  show ?case
  proof (cases "i < n")
    case False
    then show ?thesis by (simp add: pollLoop.simps [of h g n i p])
  next
    case True
    with "1.prems" obtain r where Data: "g i = Data r" by auto
    have rest: "\<forall>k. i + 1 \<le> k \<and> k < n \<longrightarrow> (\<exists>r. g k = Data r)"
      using "1.prems" by auto
    have "[i..n - 1] = i # [i + 1..n - 1]"
      using True by (simp add: upto_rec1)
    with "1.IH"(1) [OF True Data rest] True Data show ?thesis
      by (simp add: pollLoop.simps [of h g n i p])
  qed
qed

text \<open>
  A fetch without data at the last index leaves the poller as it was, so that index is
  asked for again in the next tick.
\<close>

lemma pollLoop_empty_last_fetch:
  "g i = NoData \<Longrightarrow> pollLoop h g (i + 1) i p = p"
  by (simp add: pollLoop.simps [of h g "i + 1" i p] pollLoop.simps [of h g "i + 1" "i + 1" p])

text \<open>
  Claim C1 fails when a fetch gives no data. Two records are published; in the first tick
  \<open>getAtIndex(0)\<close> resolves to a falsy value and \<open>getAtIndex(1)\<close> to a record. The loop
  goes on to index 1, dispatches it and sets the cursor to 1; the next tick, in which every
  fetch succeeds, starts at index 2, so index 0 is never dispatched.
\<close>

theorem pollTick_skips_empty_fetch:
  "lastProcessedIndex (pollTick (\<lambda>r s. s) (Data 2)
      (\<lambda>i. if i = 0 then NoData else Data ()) (startPoller ())) = 1
   \<and> dispatched (pollTick (\<lambda>r s. s) (Data 2)
      (\<lambda>i. if i = 0 then NoData else Data ()) (startPoller ())) = [1]
   \<and> dispatched (pollTick (\<lambda>r s. s) (Data 2) (\<lambda>i. Data ())
        (pollTick (\<lambda>r s. s) (Data 2)
          (\<lambda>i. if i = 0 then NoData else Data ()) (startPoller ()))) = [1]"
  by (simp add: pollTick_def startPoller_def pollLoop.simps)

end
